theory Spec2Isabelle
  imports Complex_Main
begin

section \<open>The bar-chart pipeline of plottingtools/plot.py\<close>

text \<open>
  The function \<open>bars\<close> of plot.py is embedded as a function from its arguments to an
  outcome: the list of calls made into the plotting library, in order, and the exception
  that ended the call, if any. Arrays are one-dimensional and modelled as lists; numbers
  are exact rationals, so the rounding of doubles and the special values inf and nan are
  outside the model (numpy's division by zero yields them, the model's yields 0).
  The helper \<open>util.check_parameter\<close> and Python's \<open>'{}'.format\<close> are not part of
  plot.py: both are arguments of the model. The parameter \<open>debug\<close>, which only starts
  a debugger, is left out, and so is what the plotting library does with a call.
\<close>

subsection \<open>Exceptions\<close>

datatype error =
    ConfigurationError  \<comment> \<open>whatever \<open>util.check_parameter\<close> raises on a rejected value\<close>
  | ValueError_labels   \<comment> \<open>\<open>ValueError('len(labels) != len(data)')\<close>, line 108\<close>
  | ValueError_broadcast \<comment> \<open>numpy: operands could not be broadcast together\<close>
  | ValueError_empty    \<comment> \<open>\<open>max\<close> or \<open>min\<close> of an empty sequence or array\<close>
  | IndexError
  | TypeError
  | UnboundLocalError

subsection \<open>Arguments\<close>

datatype sort_spec = SortNone | SortStr string | SortSeq "int list"

datatype scale = ScaleScalar rat | ScaleSeq "rat list"

datatype label_format = FormatNone | FormatFun "rat \<Rightarrow> string" | FormatOther

text \<open>
  \<open>labels\<close> is \<open>None\<close> when the caller omits it; \<open>np.array(None)\<close> is an array of
  dimension zero, which the model keeps as \<open>None\<close>. \<open>FormatOther\<close> stands for a
  \<open>bar_label_format\<close> that is neither \<open>None\<close> nor callable.
\<close>

record bars_args =
  data :: "rat list"
  labels :: "string list option"
  bar_width :: rat
  figsize :: "rat \<times> rat"
  title :: string
  ylim :: "(rat \<times> rat) option"
  max_val_pad :: rat
  sort_by :: sort_spec
  show_bottom_labels :: bool
  show_legend :: bool
  show_max_val :: bool
  show_fig :: bool
  save :: bool
  save_name :: "string option"
  scale_by :: "scale option"
  show_bar_labels :: bool
  bar_label_format :: label_format
  multicolor :: bool
  show_as_percent :: bool

text \<open>The values \<open>util.check_parameter\<close> is called on, tagged by the parameter's name.\<close>

datatype param =
    Param_sort_by sort_spec
  | Param_labels "string list option"
  | Param_bar_label_format label_format

subsection \<open>Calls into the plotting library\<close>

datatype event =
    Figure "rat \<times> rat"
  | Add_subplot
  | Bar int rat rat
  | Bar_all "int list" "rat list" rat
  | Plot_line "int list" "rat list"
  | Text int rat string
  | Set_ylim rat rat
  | Set_xlim rat rat
  | Set_xticks "int list"
  | Tick_params rat
  | Set_xticklabels "string list"
  | Setp_rotation nat
  | Legend "string list option"
  | Suptitle string rat
  | Savefig string
  | Show

datatype outcome = Outcome (events: "event list") (raised: "error option")

text \<open>Statements run in sequence: the first exception ends the call.\<close>

definition andthen :: "outcome \<Rightarrow> outcome \<Rightarrow> outcome" where
  "andthen a b =
     (case raised a of
        Some e \<Rightarrow> a
      | None \<Rightarrow> Outcome (events a @ events b) (raised b))"

definition emit :: "event list \<Rightarrow> outcome" where
  "emit es = Outcome es None"

definition raise :: "error \<Rightarrow> outcome" where
  "raise e = Outcome [] (Some e)"

subsection \<open>numpy on one-dimensional arrays\<close>

definition np_index :: "'a list \<Rightarrow> int \<Rightarrow> error + 'a" where
  \<comment> \<open>\<open>a[i]\<close>: a negative index counts from the end\<close>
  "np_index xs i =
     (let n = int (length xs); j = (if i < 0 then i + n else i)
      in if 0 \<le> j \<and> j < n then Inr (xs ! nat j) else Inl IndexError)"

fun np_take :: "'a list \<Rightarrow> int list \<Rightarrow> error + 'a list" where
  \<comment> \<open>\<open>a[order]\<close> with an integer index array\<close>
  "np_take xs [] = Inr []"
| "np_take xs (i # is) =
     (case np_index xs i of
        Inl e \<Rightarrow> Inl e
      | Inr v \<Rightarrow> (case np_take xs is of Inl e \<Rightarrow> Inl e | Inr vs \<Rightarrow> Inr (v # vs)))"

definition argsort :: "rat list \<Rightarrow> int list" where
  \<comment> \<open>\<open>np.argsort(data)\<close>; equal values keep their order here\<close>
  "argsort xs = map int (sort_key (\<lambda>i. xs ! i) [0..<length xs])"

definition lower :: "string \<Rightarrow> string" where
  "lower s =
     map (\<lambda>c. if 65 \<le> (of_char c :: nat) \<and> (of_char c :: nat) \<le> 90
              then char_of ((of_char c :: nat) + 32) else c) s"

definition np_divide :: "rat list \<Rightarrow> scale \<Rightarrow> error + rat list" where
  \<comment> \<open>\<open>data / np.array(scale_by)\<close> with numpy's broadcasting of shapes (n,) and (m,)\<close>
  "np_divide xs s =
     (case s of
        ScaleScalar c \<Rightarrow> Inr (map (\<lambda>x. x / c) xs)
      | ScaleSeq cs \<Rightarrow>
          if length cs = length xs then Inr (map2 (\<lambda>x c. x / c) xs cs)
          else if length cs = 1 then Inr (map (\<lambda>x. x / hd cs) xs)
          else if length xs = 1 then Inr (map (\<lambda>c. hd xs / c) cs)
          else Inl ValueError_broadcast)"

definition np_max :: "rat list \<Rightarrow> error + rat" where
  \<comment> \<open>\<open>data.max()\<close> and \<open>max(data)\<close>\<close>
  "np_max xs = (case xs of [] \<Rightarrow> Inl ValueError_empty | x # ys \<Rightarrow> Inr (fold max ys x))"

definition np_len :: "'a list option \<Rightarrow> error + nat" where
  \<comment> \<open>\<open>len(labels)\<close>: an array of dimension zero has no length\<close>
  "np_len a = (case a of None \<Rightarrow> Inl TypeError | Some xs \<Rightarrow> Inr (length xs))"

subsection \<open>Lines 85 to 140: the values prepared for drawing\<close>

definition reorder ::
  "(param \<Rightarrow> bool) \<Rightarrow> bars_args \<Rightarrow> error + (rat list \<times> string list option)" where
  \<comment> \<open>lines 89 to 102\<close>
  "reorder check_parameter a =
     (if \<not> check_parameter (Param_sort_by (sort_by a)) then Inl ConfigurationError
      else case sort_by a of
        SortNone \<Rightarrow> Inr (data a, labels a)
      | SortStr s \<Rightarrow>
          (let order = argsort (data a);
               order = (if lower s = ''descending'' then rev order else order)
           in case np_take (data a) order of
                Inl e \<Rightarrow> Inl e
              | Inr d \<Rightarrow>
                 (case labels a of
                    None \<Rightarrow> Inl IndexError
                  | Some ls \<Rightarrow>
                     (case np_take ls order of
                        Inl e \<Rightarrow> Inl e
                      | Inr ls' \<Rightarrow> Inr (d, Some ls'))))
      | SortSeq order \<Rightarrow>
          \<comment> \<open>\<open>np.array([])\<close> is an array of floats, which cannot index\<close>
          (if order = [] then Inl IndexError
           else case np_take (data a) order of
                Inl e \<Rightarrow> Inl e
              | Inr d \<Rightarrow>
                 (case labels a of
                    None \<Rightarrow> Inl IndexError
                  | Some ls \<Rightarrow>
                     (case np_take ls order of
                        Inl e \<Rightarrow> Inl e
                      | Inr ls' \<Rightarrow> Inr (d, Some ls')))))"

definition label_rotation :: "nat \<Rightarrow> nat" where
  \<comment> \<open>lines 114 to 117\<close>
  "label_rotation n = (if n > 7 then 45 else 0)"

definition bottom_labels ::
  "(rat \<Rightarrow> string) \<Rightarrow> bars_args \<Rightarrow> rat list \<Rightarrow> string list option
     \<Rightarrow> error + (string list \<times> nat) option" where
  \<comment> \<open>lines 106 to 119; \<open>labels is not None\<close> holds of every array\<close>
  "bottom_labels format a d l =
     (if show_bottom_labels a then
        (case np_len l of
           Inl e \<Rightarrow> Inl e
         | Inr n \<Rightarrow>
            if n \<noteq> length d then Inl ValueError_labels
            else Inr (Some (map2 (\<lambda>lab v. lab @ [CHR 0x0A] @ ''N = '' @ format v) (the l) d,
                            label_rotation n)))
      else Inr None)"

definition scale_data :: "bars_args \<Rightarrow> rat list \<Rightarrow> error + (rat list \<times> rat)" where
  \<comment> \<open>lines 122 to 126: the values and \<open>max_val\<close>\<close>
  "scale_data a d =
     (case scale_by a of
        Some s \<Rightarrow> (case np_divide d s of Inl e \<Rightarrow> Inl e | Inr d' \<Rightarrow> Inr (d', 1))
      | None \<Rightarrow> (case np_max d of Inl e \<Rightarrow> Inl e | Inr m \<Rightarrow> Inr (d, m)))"

definition percent_data :: "bars_args \<Rightarrow> rat list \<Rightarrow> rat list" where
  \<comment> \<open>line 138\<close>
  "percent_data a d = (if show_as_percent a then map (\<lambda>x. x * 100) d else d)"

definition percent_ylim :: "bars_args \<Rightarrow> (rat \<times> rat) option" where
  \<comment> \<open>lines 137 to 140\<close>
  "percent_ylim a =
     (if show_as_percent a then
        (case ylim a of None \<Rightarrow> None | Some (lo, hi) \<Rightarrow> Some (lo * 100, hi * 100))
      else ylim a)"

record prepared =
  p_data :: "rat list"
  p_labels :: "string list"
  p_bottom_labels :: "(string list \<times> nat) option"
  p_max_val :: rat
  p_offsets :: "int list"
  p_ylim :: "(rat \<times> rat) option"

definition prepare ::
  "(param \<Rightarrow> bool) \<Rightarrow> (rat \<Rightarrow> string) \<Rightarrow> bars_args \<Rightarrow> error + prepared" where
  "prepare check_parameter format a =
     (case reorder check_parameter a of
        Inl e \<Rightarrow> Inl e
      | Inr (d, l) \<Rightarrow>
         if \<not> check_parameter (Param_labels l) then Inl ConfigurationError
         else case bottom_labels format a d l of
           Inl e \<Rightarrow> Inl e
         | Inr bl \<Rightarrow>
            (case scale_data a d of
               Inl e \<Rightarrow> Inl e
             | Inr (d', m) \<Rightarrow>
                (case np_len l of
                   Inl e \<Rightarrow> Inl e
                 | Inr n \<Rightarrow>
                    Inr \<lparr> p_data = percent_data a d',
                          p_labels = the l,
                          p_bottom_labels = bl,
                          p_max_val = m,
                          p_offsets = map int [0..<n],
                          p_ylim = percent_ylim a \<rparr>)))"

subsection \<open>Lines 143 to 209: drawing\<close>

fun bar_loop :: "rat list \<Rightarrow> rat \<Rightarrow> int list \<Rightarrow> outcome" where
  \<comment> \<open>lines 147 and 148; \<open>offsets[i]\<close> is \<open>i\<close>, so the loop runs over the offsets\<close>
  "bar_loop d w [] = emit []"
| "bar_loop d w (i # is) =
     (case np_index d i of
        Inl e \<Rightarrow> raise e
      | Inr v \<Rightarrow> andthen (emit [Bar i v w]) (bar_loop d w is))"

definition draw_bars :: "bars_args \<Rightarrow> prepared \<Rightarrow> outcome" where
  \<comment> \<open>lines 143 to 150\<close>
  "draw_bars a p =
     andthen (emit [Figure (figsize a), Add_subplot])
       (if multicolor a then bar_loop (p_data p) (bar_width a) (p_offsets p)
        else emit [Bar_all (p_offsets p) (p_data p) (bar_width a)])"

definition py_min :: "int list \<Rightarrow> error + int" where
  "py_min xs = (case xs of [] \<Rightarrow> Inl ValueError_empty | x # ys \<Rightarrow> Inr (fold min ys x))"

definition py_max :: "int list \<Rightarrow> error + int" where
  "py_max xs = (case xs of [] \<Rightarrow> Inl ValueError_empty | x # ys \<Rightarrow> Inr (fold max ys x))"

definition reference_max :: "bars_args \<Rightarrow> prepared \<Rightarrow> rat" where
  \<comment> \<open>line 154\<close>
  "reference_max a p = (if show_as_percent a then 100 else p_max_val p)"

definition max_line :: "bars_args \<Rightarrow> prepared \<Rightarrow> outcome" where
  \<comment> \<open>lines 153 to 158\<close>
  "max_line a p =
     (if show_max_val a then
        (case py_min (p_offsets p) of
           Inl e \<Rightarrow> raise e
         | Inr lo \<Rightarrow>
            (case py_max (p_offsets p) of
               Inl e \<Rightarrow> raise e
             | Inr hi \<Rightarrow>
                emit [Plot_line [lo - 1, hi + 1] [reference_max a p, reference_max a p]]))
      else emit [])"

definition y_offset :: "bars_args \<Rightarrow> error + rat" where
  \<comment> \<open>lines 171 and 172: the name is bound only under a scale factor\<close>
  "y_offset a = (case scale_by a of Some s \<Rightarrow> Inr (5 / 100) | None \<Rightarrow> Inl UnboundLocalError)"

definition fmt :: "(rat \<Rightarrow> string) \<Rightarrow> bars_args \<Rightarrow> rat \<Rightarrow> error + string" where
  \<comment> \<open>lines 165 to 169, and the call \<open>fmt(data[i])\<close>\<close>
  "fmt format a v =
     (case bar_label_format a of
        FormatNone \<Rightarrow> Inr (format v)
      | FormatFun f \<Rightarrow> Inr (f v)
      | FormatOther \<Rightarrow> Inl TypeError)"

fun text_loop :: "(rat \<Rightarrow> string) \<Rightarrow> bars_args \<Rightarrow> rat list \<Rightarrow> int list \<Rightarrow> outcome" where
  \<comment> \<open>lines 174 and 175, the arguments of \<open>plt.text\<close> evaluated from left to right\<close>
  "text_loop format a d [] = emit []"
| "text_loop format a d (i # is) =
     (case np_index d i of
        Inl e \<Rightarrow> raise e
      | Inr v \<Rightarrow>
         (case y_offset a of
            Inl e \<Rightarrow> raise e
          | Inr off \<Rightarrow>
             (case fmt format a v of
                Inl e \<Rightarrow> raise e
              | Inr s \<Rightarrow> andthen (emit [Text i (v + off) s]) (text_loop format a d is))))"

definition bar_labels ::
  "(param \<Rightarrow> bool) \<Rightarrow> (rat \<Rightarrow> string) \<Rightarrow> bars_args \<Rightarrow> prepared \<Rightarrow> outcome" where
  \<comment> \<open>lines 161 to 175\<close>
  "bar_labels check_parameter format a p =
     (if show_bar_labels a then
        (if \<not> check_parameter (Param_bar_label_format (bar_label_format a))
         then raise ConfigurationError
         else text_loop format a (p_data p) (p_offsets p))
      else emit [])"

definition y_limits :: "bars_args \<Rightarrow> prepared \<Rightarrow> error + rat \<times> rat" where
  \<comment> \<open>lines 178 and 179\<close>
  "y_limits a p =
     (case p_ylim p of
        Some y \<Rightarrow> Inr y
      | None \<Rightarrow>
         (case np_max (p_data p) of
            Inl e \<Rightarrow> Inl e
          | Inr m \<Rightarrow> Inr (0, m + m * max_val_pad a)))"

definition x_limits :: "bars_args \<Rightarrow> prepared \<Rightarrow> rat \<times> rat" where
  \<comment> \<open>line 183\<close>
  "x_limits a p = (- bar_width a, of_int (int (length (p_data p)) - 1) + bar_width a)"

definition limits :: "bars_args \<Rightarrow> prepared \<Rightarrow> outcome" where
  \<comment> \<open>lines 178 to 185\<close>
  "limits a p =
     (case y_limits a p of
        Inl e \<Rightarrow> raise e
      | Inr (lo, hi) \<Rightarrow>
         emit [Set_ylim lo hi,
               Set_xlim (fst (x_limits a p)) (snd (x_limits a p)),
               Set_xticks (p_offsets p),
               Tick_params (max (fst (figsize a)) (snd (figsize a)))])"

definition tick_labels :: "prepared \<Rightarrow> outcome" where
  \<comment> \<open>lines 188 to 192\<close>
  "tick_labels p =
     (case p_bottom_labels p of
        Some (bl, rot) \<Rightarrow> emit [Set_xticklabels bl, Setp_rotation rot]
      | None \<Rightarrow> emit [Set_xticklabels (map (\<lambda>v. []) (p_data p))])"

definition finish :: "bars_args \<Rightarrow> prepared \<Rightarrow> outcome" where
  \<comment> \<open>lines 195 to 209\<close>
  "finish a p =
     emit ((if show_legend a then [Legend (Some (p_labels p))] else [])
           @ [Suptitle (title a) (max (fst (figsize a)) (snd (figsize a)) * 2)]
           @ (if save a
              then [Savefig (case save_name a of Some n \<Rightarrow> n | None \<Rightarrow> title a)]
              else [])
           @ (if show_fig a then [Show] else []))"

definition render ::
  "(param \<Rightarrow> bool) \<Rightarrow> (rat \<Rightarrow> string) \<Rightarrow> bars_args \<Rightarrow> prepared \<Rightarrow> outcome" where
  "render check_parameter format a p =
     andthen (draw_bars a p)
       (andthen (max_line a p)
          (andthen (bar_labels check_parameter format a p)
             (andthen (limits a p)
                (andthen (tick_labels p) (finish a p)))))"

definition bars :: "(param \<Rightarrow> bool) \<Rightarrow> (rat \<Rightarrow> string) \<Rightarrow> bars_args \<Rightarrow> outcome" where
  "bars check_parameter format a =
     (case prepare check_parameter format a of
        Inl e \<Rightarrow> raise e
      | Inr p \<Rightarrow> render check_parameter format a p)"

text \<open>
  Modelled from the spec: \<open>util.check_parameter\<close>, whose module is not among the source
  files. The spec has it reject an option value that is unrecognised; the values it
  recognises are those of the table \<open>valid_options\<close> of plot.py: for \<open>sort_by\<close> the
  value \<open>None\<close>, the two policy names and any sequence, for \<open>labels\<close> any array, for
  \<open>bar_label_format\<close> the value \<open>None\<close> and any function. It is used to instantiate
  the checker at concrete inputs only.
\<close>

definition check_parameter :: "param \<Rightarrow> bool" where
  "check_parameter v =
     (case v of
        Param_sort_by SortNone \<Rightarrow> True
      | Param_sort_by (SortStr s) \<Rightarrow> s = ''ascending'' \<or> s = ''descending''
      | Param_sort_by (SortSeq is) \<Rightarrow> True
      | Param_labels l \<Rightarrow> True
      | Param_bar_label_format FormatNone \<Rightarrow> True
      | Param_bar_label_format (FormatFun f) \<Rightarrow> True
      | Param_bar_label_format FormatOther \<Rightarrow> False)"

text \<open>A stand-in for \<open>'{}'.format\<close> at concrete inputs: it prints whole numbers only.\<close>

definition digit :: "nat \<Rightarrow> char" where
  "digit n = char_of (48 + n)"

fun digits :: "nat \<Rightarrow> nat \<Rightarrow> string" where
  "digits 0 n = []"
| "digits (Suc k) n = (if n < 10 then [digit n] else digits k (n div 10) @ [digit (n mod 10)])"

definition format_whole :: "rat \<Rightarrow> string" where
  "format_whole v = (let n = nat (floor v) in digits (Suc n) n)"

subsection \<open>What a list of calls shows\<close>

definition ylims :: "event list \<Rightarrow> (rat \<times> rat) list" where
  "ylims es = concat (map (\<lambda>e. case e of Set_ylim lo hi \<Rightarrow> [(lo, hi)] | _ \<Rightarrow> []) es)"

definition xlims :: "event list \<Rightarrow> (rat \<times> rat) list" where
  "xlims es = concat (map (\<lambda>e. case e of Set_xlim lo hi \<Rightarrow> [(lo, hi)] | _ \<Rightarrow> []) es)"

definition max_lines :: "event list \<Rightarrow> rat list list" where
  "max_lines es = concat (map (\<lambda>e. case e of Plot_line xs ys \<Rightarrow> [ys] | _ \<Rightarrow> []) es)"

definition rotations :: "event list \<Rightarrow> nat list" where
  "rotations es = concat (map (\<lambda>e. case e of Setp_rotation r \<Rightarrow> [r] | _ \<Rightarrow> []) es)"

definition ticklabels :: "event list \<Rightarrow> string list list" where
  "ticklabels es = concat (map (\<lambda>e. case e of Set_xticklabels ls \<Rightarrow> [ls] | _ \<Rightarrow> []) es)"

definition texts :: "event list \<Rightarrow> (int \<times> rat \<times> string) list" where
  "texts es = concat (map (\<lambda>e. case e of Text x y s \<Rightarrow> [(x, y, s)] | _ \<Rightarrow> []) es)"

subsection \<open>Concrete calls\<close>

definition defaults :: "rat list \<Rightarrow> string list option \<Rightarrow> bars_args" where
  \<comment> \<open>\<open>bars(data, labels)\<close>, every other parameter at its default\<close>
  "defaults d l =
     \<lparr> data = d, labels = l, bar_width = 3 / 4, figsize = (12, 8), title = [],
       ylim = None, max_val_pad = 1 / 10, sort_by = SortNone, show_bottom_labels = True,
       show_legend = False, show_max_val = False, show_fig = True, save = False,
       save_name = None, scale_by = None, show_bar_labels = False,
       bar_label_format = FormatNone, multicolor = True, show_as_percent = False \<rparr>"

definition call_no_labels :: bars_args where
  "call_no_labels = defaults [1, 2, 3] None"

definition call_no_labels_hidden :: bars_args where
  "call_no_labels_hidden = (defaults [1, 2, 3] None) \<lparr> show_bottom_labels := False \<rparr>"

definition keeps_count :: "bars_args \<Rightarrow> bool" where
  \<comment> \<open>neither the reordering nor the scaling changes the number of values\<close>
  "keeps_count a =
     ((case sort_by a of SortSeq js \<Rightarrow> length js = length (data a) | _ \<Rightarrow> True)
      \<and> (case scale_by a of
            Some (ScaleSeq cs) \<Rightarrow> length cs = length (data a) \<or> length cs = 1
          | _ \<Rightarrow> True))"

definition call_plain :: bars_args where
  "call_plain = defaults [3, 1, 2] (Some [''a'', ''b'', ''c''])"


definition call_subset :: bars_args where
  "call_subset = (defaults [1, 2, 3] (Some [''a'', ''b'', ''c''])) \<lparr> sort_by := SortSeq [2, 0] \<rparr>"

definition call_seven :: bars_args where
  "call_seven =
     defaults [1, 2, 3, 4, 5, 6, 7] (Some [''a'', ''b'', ''c'', ''d'', ''e'', ''f'', ''g''])"

definition call_eight :: bars_args where
  "call_eight =
     defaults [1, 2, 3, 4, 5, 6, 7, 8]
       (Some [''a'', ''b'', ''c'', ''d'', ''e'', ''f'', ''g'', ''h''])"






definition call_full_order :: bars_args where
  "call_full_order = (defaults [1, 2] (Some [''a'', ''b''])) \<lparr> sort_by := SortSeq [0, 1] \<rparr>"

definition call_short_order :: bars_args where
  "call_short_order =
     (defaults [1, 2, 3] (Some [''a'', ''b'', ''c''])) \<lparr> sort_by := SortSeq [0, 1] \<rparr>"

definition call_last_first :: bars_args where
  "call_last_first =
     (defaults [1, 2, 3] (Some [''a'', ''b'', ''c''])) \<lparr> sort_by := SortSeq [- 1, 0, 1] \<rparr>"



definition call_bar_labels :: bars_args where
  "call_bar_labels = (defaults [50, 50] (Some [''a'', ''b''])) \<lparr> show_bar_labels := True \<rparr>"

definition call_bar_labels_scaled :: bars_args where
  "call_bar_labels_scaled =
     (defaults [100, 200] (Some [''a'', ''b'']))
       \<lparr> show_bar_labels := True, scale_by := Some (ScaleScalar 100) \<rparr>"

section \<open>Properties\<close>

subsection \<open>Sequencing\<close>

lemma raised_andthen:
  "raised (andthen x y) = (case raised x of Some e \<Rightarrow> Some e | None \<Rightarrow> raised y)"
  by (simp add: andthen_def split: option.splits)

lemma events_andthen:
  "events (andthen x y) = events x @ (if raised x = None then events y else [])"
  by (simp add: andthen_def split: option.splits)

lemma raised_emit: "raised (emit es) = None"
  by (simp add: emit_def)

lemma events_emit: "events (emit es) = es"
  by (simp add: emit_def)

lemma raised_raise: "raised (raise e) = Some e"
  by (simp add: raise_def)

lemma events_raise: "events (raise e) = []"
  by (simp add: raise_def)

lemma bars_prepare_failed:
  "prepare chk fm a = Inl e \<Longrightarrow> bars chk fm a = Outcome [] (Some e)"
  by (simp add: bars_def raise_def)

subsection \<open>The stages of a call\<close>


lemma np_take_length: "np_take xs js = Inr ys \<Longrightarrow> length ys = length js"
  by (induction js arbitrary: ys) (auto split: sum.splits)

lemma argsort_length: "length (argsort xs) = length xs"
  by (simp add: argsort_def)

lemma reorder_length:
  "reorder chk a = Inr (d, l) \<Longrightarrow>
     length d = (case sort_by a of SortSeq js \<Rightarrow> length js | _ \<Rightarrow> length (data a))"
  by (auto simp: reorder_def Let_def argsort_length dest!: np_take_length
      split: if_splits sort_spec.splits sum.splits option.splits)

lemma np_divide_length:
  "np_divide d s = Inr d' \<Longrightarrow>
     length d' = (case s of
                    ScaleScalar c \<Rightarrow> length d
                  | ScaleSeq cs \<Rightarrow>
                      if length cs = length d \<or> length cs = 1 then length d else length cs)"
  by (auto simp: np_divide_def split: scale.splits if_splits)

lemma percent_data_length: "length (percent_data a d) = length d"
  by (simp add: percent_data_def)

lemma prepare_Inr:
  assumes "prepare chk fm a = Inr p"
  shows "\<exists>d l d' m. reorder chk a = Inr (d, Some l) \<and> chk (Param_labels (Some l))
           \<and> bottom_labels fm a d (Some l) = Inr (p_bottom_labels p)
           \<and> scale_data a d = Inr (d', m)
           \<and> p_data p = percent_data a d' \<and> p_labels p = l \<and> p_max_val p = m
           \<and> p_offsets p = map int [0..<length l] \<and> p_ylim p = percent_ylim a"
  using assms
  by (auto simp: prepare_def np_len_def split: sum.splits prod.splits if_splits option.splits)


lemma bars_completed:
  assumes "raised (bars chk fm a) = None"
  shows "\<exists>p. prepare chk fm a = Inr p \<and> bars chk fm a = render chk fm a p"
  using assms by (cases "prepare chk fm a") (auto simp: bars_def raise_def)

lemma render_completed:
  assumes "raised (render chk fm a p) = None"
  shows "raised (draw_bars a p) = None \<and> raised (max_line a p) = None
       \<and> raised (bar_labels chk fm a p) = None \<and> raised (limits a p) = None"
    and "events (render chk fm a p) =
           events (draw_bars a p) @ events (max_line a p) @ events (bar_labels chk fm a p)
           @ events (limits a p) @ events (tick_labels p) @ events (finish a p)"
  using assms
  by (auto simp: render_def raised_andthen events_andthen split: option.splits)

lemma ylims_append: "ylims (xs @ ys) = ylims xs @ ylims ys"
  by (simp add: ylims_def)

lemma xlims_append: "xlims (xs @ ys) = xlims xs @ xlims ys"
  by (simp add: xlims_def)

lemma max_lines_append: "max_lines (xs @ ys) = max_lines xs @ max_lines ys"
  by (simp add: max_lines_def)

lemma rotations_append: "rotations (xs @ ys) = rotations xs @ rotations ys"
  by (simp add: rotations_def)

lemma ticklabels_append: "ticklabels (xs @ ys) = ticklabels xs @ ticklabels ys"
  by (simp add: ticklabels_def)

lemma shows_Nil:
  "ylims [] = []" "xlims [] = []" "max_lines [] = []" "rotations [] = []" "ticklabels [] = []"
  by (simp_all add: ylims_def xlims_def max_lines_def rotations_def ticklabels_def)

lemma shows_Cons:
  "ylims (e # es) = (case e of Set_ylim lo hi \<Rightarrow> [(lo, hi)] | _ \<Rightarrow> []) @ ylims es"
  "xlims (e # es) = (case e of Set_xlim lo hi \<Rightarrow> [(lo, hi)] | _ \<Rightarrow> []) @ xlims es"
  "max_lines (e # es) = (case e of Plot_line xs ys \<Rightarrow> [ys] | _ \<Rightarrow> []) @ max_lines es"
  "rotations (e # es) = (case e of Setp_rotation r \<Rightarrow> [r] | _ \<Rightarrow> []) @ rotations es"
  "ticklabels (e # es) =
     (case e of Set_xticklabels ls \<Rightarrow> [ls] | _ \<Rightarrow> []) @ ticklabels es"
  by (simp_all add: ylims_def xlims_def max_lines_def rotations_def ticklabels_def)

lemma bar_loop_shows:
  "ylims (events (bar_loop d w js)) = []" "xlims (events (bar_loop d w js)) = []"
  "max_lines (events (bar_loop d w js)) = []" "rotations (events (bar_loop d w js)) = []"
  "ticklabels (events (bar_loop d w js)) = []"
  by (induction js;
      simp add: shows_Nil shows_Cons events_andthen events_emit events_raise raised_emit
        split: sum.splits)+

lemma text_loop_shows:
  "ylims (events (text_loop fm a d js)) = []" "xlims (events (text_loop fm a d js)) = []"
  "max_lines (events (text_loop fm a d js)) = []" "rotations (events (text_loop fm a d js)) = []"
  "ticklabels (events (text_loop fm a d js)) = []"
  by (induction js;
      simp add: shows_Nil shows_Cons events_andthen events_emit events_raise raised_emit
        split: sum.splits)+

lemma draw_bars_shows:
  "ylims (events (draw_bars a p)) = []" "xlims (events (draw_bars a p)) = []"
  "max_lines (events (draw_bars a p)) = []" "rotations (events (draw_bars a p)) = []"
  "ticklabels (events (draw_bars a p)) = []"
  by (simp_all add: draw_bars_def events_andthen events_emit raised_emit bar_loop_shows
      shows_Nil shows_Cons)

lemma bar_labels_shows:
  "ylims (events (bar_labels chk fm a p)) = []" "xlims (events (bar_labels chk fm a p)) = []"
  "max_lines (events (bar_labels chk fm a p)) = []"
  "rotations (events (bar_labels chk fm a p)) = []"
  "ticklabels (events (bar_labels chk fm a p)) = []"
  by (simp_all add: bar_labels_def events_emit events_raise text_loop_shows shows_Nil)

lemma max_line_shows:
  "ylims (events (max_line a p)) = []" "xlims (events (max_line a p)) = []"
  "rotations (events (max_line a p)) = []" "ticklabels (events (max_line a p)) = []"
  by (simp_all add: max_line_def events_emit events_raise shows_Nil shows_Cons
      split: sum.splits)

lemma max_line_lines:
  "raised (max_line a p) = None \<Longrightarrow>
     max_lines (events (max_line a p)) =
       (if show_max_val a then [[reference_max a p, reference_max a p]] else [])"
  by (simp add: max_line_def events_emit raised_raise shows_Nil shows_Cons
      split: sum.splits if_splits)

lemma limits_shows:
  "raised (limits a p) = None \<Longrightarrow>
     \<exists>y. y_limits a p = Inr y \<and> ylims (events (limits a p)) = [y]
        \<and> xlims (events (limits a p)) = [x_limits a p]"
  "max_lines (events (limits a p)) = []" "rotations (events (limits a p)) = []"
  "ticklabels (events (limits a p)) = []"
  by (auto simp: limits_def events_emit events_raise raised_raise shows_Nil shows_Cons
      split: sum.splits prod.splits)

lemma tick_labels_shows:
  "ylims (events (tick_labels p)) = []" "xlims (events (tick_labels p)) = []"
  "max_lines (events (tick_labels p)) = []"
  "rotations (events (tick_labels p)) =
     (case p_bottom_labels p of Some (bl, rot) \<Rightarrow> [rot] | None \<Rightarrow> [])"
  "ticklabels (events (tick_labels p)) =
     (case p_bottom_labels p of Some (bl, rot) \<Rightarrow> [bl]
      | None \<Rightarrow> [map (\<lambda>v. []) (p_data p)])"
  by (simp_all add: tick_labels_def events_emit shows_Nil shows_Cons
      split: option.splits prod.splits)

lemma finish_shows:
  "ylims (events (finish a p)) = []" "xlims (events (finish a p)) = []"
  "max_lines (events (finish a p)) = []" "rotations (events (finish a p)) = []"
  "ticklabels (events (finish a p)) = []"
  by (simp_all add: finish_def events_emit shows_Nil shows_Cons
      ylims_append xlims_append max_lines_append rotations_append ticklabels_append)

lemma bars_completed_shows:
  assumes "raised (bars chk fm a) = None"
  shows "\<exists>p y. prepare chk fm a = Inr p \<and> y_limits a p = Inr y
     \<and> ylims (events (bars chk fm a)) = [y]
     \<and> xlims (events (bars chk fm a)) = [x_limits a p]
     \<and> max_lines (events (bars chk fm a)) =
          (if show_max_val a then [[reference_max a p, reference_max a p]] else [])
     \<and> rotations (events (bars chk fm a)) =
          (case p_bottom_labels p of Some (bl, rot) \<Rightarrow> [rot] | None \<Rightarrow> [])
     \<and> ticklabels (events (bars chk fm a)) =
          (case p_bottom_labels p of Some (bl, rot) \<Rightarrow> [bl]
           | None \<Rightarrow> [map (\<lambda>v. []) (p_data p)])"
proof -
  from assms obtain p where p: "prepare chk fm a = Inr p"
    and b: "bars chk fm a = render chk fm a p"
    using bars_completed by blast
  from assms b have r: "raised (render chk fm a p) = None" by simp
  note c = render_completed [OF r]
  from c(1) obtain y where y: "y_limits a p = Inr y" "ylims (events (limits a p)) = [y]"
    "xlims (events (limits a p)) = [x_limits a p]"
    using limits_shows(1) by blast
  have ml: "max_lines (events (max_line a p)) =
      (if show_max_val a then [[reference_max a p, reference_max a p]] else [])"
    using c(1) by (simp add: max_line_lines)
  show ?thesis
    using p y ml
    by (simp add: b c(2) ylims_append xlims_append max_lines_append rotations_append
        ticklabels_append draw_bars_shows max_line_shows bar_labels_shows limits_shows(2-)
        tick_labels_shows finish_shows)
qed

subsection \<open>The limits of the y axis\<close>




subsection \<open>The limits of the x axis\<close>

lemma prepare_count:
  assumes "prepare chk fm a = Inr p" "keeps_count a"
  shows "length (p_data p) = length (data a)"
proof -
  from assms(1) obtain d l d' m where r: "reorder chk a = Inr (d, Some l)"
    and s: "scale_data a d = Inr (d', m)" and pd: "p_data p = percent_data a d'"
    using prepare_Inr by blast
  from reorder_length [OF r] assms(2) have d: "length d = length (data a)"
    by (auto simp: keeps_count_def split: sort_spec.splits)
  have "length d' = length d"
  proof (cases "scale_by a")
    case None
    with s show ?thesis by (auto simp: scale_data_def split: sum.splits)
  next
    case (Some sc)
    with s have "np_divide d sc = Inr d'" by (auto simp: scale_data_def split: sum.splits)
    from np_divide_length [OF this] Some assms(2) d show ?thesis
      by (auto simp: keeps_count_def split: scale.splits)
  qed
  with d pd show ?thesis by (simp add: percent_data_length)
qed

text \<open>
  C7, as amended. In a call that completes, the x axis is limited once, to
  \<open>- bar_width\<close> and \<open>(M - 1) + bar_width\<close>, where \<open>M\<close> is the number of values after
  reordering and scaling. \<open>M\<close> is the number \<open>N\<close> of data points of the call whenever
  \<open>sort_by\<close>, if an index sequence, has length \<open>N\<close> and \<open>scale_by\<close>, if a sequence, has
  length \<open>N\<close> or 1.
\<close>

theorem bars_x_limits:
  assumes "raised (bars chk fm a) = None"
  shows "\<exists>p. prepare chk fm a = Inr p
     \<and> xlims (events (bars chk fm a)) =
         [(- bar_width a, of_int (int (length (p_data p)) - 1) + bar_width a)]
     \<and> (keeps_count a \<longrightarrow> length (p_data p) = length (data a))"
proof -
  from bars_completed_shows [OF assms] obtain p where
    p: "prepare chk fm a = Inr p" and s: "xlims (events (bars chk fm a)) = [x_limits a p]"
    by blast
  show ?thesis using p s prepare_count [OF p] by (auto simp: x_limits_def)
qed

theorem bars_x_limits_witness:
  "raised (bars check_parameter format_whole call_plain) = None
   \<and> keeps_count call_plain
   \<and> xlims (events (bars check_parameter format_whole call_plain)) = [(- (3 / 4), 11 / 4)]"
proof -
  have h: "raised (bars check_parameter format_whole call_plain) = None"
    by code_simp
  have k: "keeps_count call_plain"
    by (simp add: keeps_count_def call_plain_def defaults_def)
  from bars_x_limits [OF h] k
  have "xlims (events (bars check_parameter format_whole call_plain)) =
      [(- bar_width call_plain, of_int (int (length (data call_plain)) - 1)
          + bar_width call_plain)]"
    by auto
  then show ?thesis using h k by (simp add: call_plain_def defaults_def)
qed

text \<open>
  C7 as stated fails: three data points shown in the order \<open>[2, 0]\<close> make two bars, and
  the x axis ends at \<open>1 + bar_width\<close>, not at \<open>2 + bar_width\<close>.
\<close>

theorem bars_x_limits_counterexample:
  "length (data call_subset) = 3
   \<and> raised (bars check_parameter format_whole call_subset) = None
   \<and> xlims (events (bars check_parameter format_whole call_subset)) = [(- (3 / 4), 7 / 4)]
   \<and> xlims (events (bars check_parameter format_whole call_subset)) \<noteq>
       [(- bar_width call_subset,
         of_int (int (length (data call_subset)) - 1) + bar_width call_subset)]"
  by code_simp

subsection \<open>The rotation of the bottom labels\<close>

lemma bottom_labels_shown:
  assumes "bottom_labels fm a d (Some l) = Inr b" "show_bottom_labels a"
  shows "\<exists>bl. b = Some (bl, label_rotation (length bl)) \<and> length bl = length d
             \<and> length l = length d"
  using assms by (auto simp: bottom_labels_def np_len_def split: if_splits)

text \<open>
  C8. In a call that completes with bottom labels shown, the tick labels are set once
  and rotated once: by 45 degrees when there are more than 7 of them, by 0 degrees
  otherwise. There are as many labels as values after reordering.
\<close>

theorem bars_label_rotation:
  assumes "raised (bars chk fm a) = None" "show_bottom_labels a"
  shows "\<exists>bl. ticklabels (events (bars chk fm a)) = [bl]
     \<and> rotations (events (bars chk fm a)) = [if length bl > 7 then 45 else 0]
     \<and> length bl = (case sort_by a of SortSeq js \<Rightarrow> length js | _ \<Rightarrow> length (data a))"
proof -
  from bars_completed_shows [OF assms(1)] obtain p where
    p: "prepare chk fm a = Inr p"
    and r: "rotations (events (bars chk fm a)) =
          (case p_bottom_labels p of Some (bl, rot) \<Rightarrow> [rot] | None \<Rightarrow> [])"
    and t: "ticklabels (events (bars chk fm a)) =
          (case p_bottom_labels p of Some (bl, rot) \<Rightarrow> [bl]
           | None \<Rightarrow> [map (\<lambda>v. []) (p_data p)])"
    by blast
  from p obtain d l where ro: "reorder chk a = Inr (d, Some l)"
    and b: "bottom_labels fm a d (Some l) = Inr (p_bottom_labels p)"
    using prepare_Inr by blast
  from bottom_labels_shown [OF b assms(2)] obtain bl where
    bl: "p_bottom_labels p = Some (bl, label_rotation (length bl))" "length bl = length d"
    by blast
  show ?thesis
    using r t bl reorder_length [OF ro] by (simp add: label_rotation_def)
qed

theorem bars_label_rotation_witness:
  "raised (bars check_parameter format_whole call_eight) = None
   \<and> show_bottom_labels call_eight
   \<and> rotations (events (bars check_parameter format_whole call_eight)) = [45]
   \<and> raised (bars check_parameter format_whole call_seven) = None
   \<and> show_bottom_labels call_seven
   \<and> rotations (events (bars check_parameter format_whole call_seven)) = [0]"
proof -
  have h8: "raised (bars check_parameter format_whole call_eight) = None"
    by code_simp
  have s8: "show_bottom_labels call_eight"
    by (simp add: call_eight_def defaults_def)
  from bars_label_rotation [OF h8 s8]
  have 8: "rotations (events (bars check_parameter format_whole call_eight)) = [45]"
    by (auto simp: call_eight_def defaults_def)
  have h7: "raised (bars check_parameter format_whole call_seven) = None"
    by code_simp
  have s7: "show_bottom_labels call_seven"
    by (simp add: call_seven_def defaults_def)
  from bars_label_rotation [OF h7 s7]
  have 7: "rotations (events (bars check_parameter format_whole call_seven)) = [0]"
    by (auto simp: call_seven_def defaults_def)
  show ?thesis using h8 s8 8 h7 s7 7 by simp
qed

subsection \<open>Scaling and the reference maximum\<close>






subsection \<open>Percent mode\<close>



subsection \<open>Labels and data of different lengths\<close>





subsection \<open>An explicit order\<close>

lemma np_index_in_range:
  "- int (length xs) \<le> j \<Longrightarrow> j < int (length xs) \<Longrightarrow>
     np_index xs j = Inr (xs ! nat (if j < 0 then j + int (length xs) else j))"
  by (auto simp: np_index_def Let_def)

lemma np_take_in_range:
  "\<forall>j\<in>set js. - int (length xs) \<le> j \<and> j < int (length xs) \<Longrightarrow>
     np_take xs js = Inr (map (\<lambda>j. xs ! nat (if j < 0 then j + int (length xs) else j)) js)"
  by (induction js) (simp_all add: np_index_in_range)

text \<open>
  C5, as amended. An index sequence given as \<open>sort_by\<close> and accepted by the validation
  is used as the index array as it is, whatever its length: the values and the labels
  become those at the listed positions, a negative position counting from the end,
  provided the sequence is not empty and every position lies within both arrays.
\<close>

theorem bars_explicit_order:
  assumes "sort_by a = SortSeq js" "chk (Param_sort_by (SortSeq js))" "js \<noteq> []"
    "labels a = Some ls"
    "\<forall>j\<in>set js. - int (length (data a)) \<le> j \<and> j < int (length (data a))"
    "\<forall>j\<in>set js. - int (length ls) \<le> j \<and> j < int (length ls)"
  shows "reorder chk a =
     Inr (map (\<lambda>j. data a ! nat (if j < 0 then j + int (length (data a)) else j)) js,
          Some (map (\<lambda>j. ls ! nat (if j < 0 then j + int (length ls) else j)) js))"
  using assms
  by (simp add: reorder_def np_take_in_range [OF assms(5)] np_take_in_range [OF assms(6)])

theorem bars_explicit_order_witness:
  "sort_by call_short_order = SortSeq [0, 1] \<and> length (data call_short_order) = 3
   \<and> reorder check_parameter call_short_order = Inr ([1, 2], Some [''a'', ''b''])
   \<and> sort_by call_last_first = SortSeq [- 1, 0, 1]
   \<and> reorder check_parameter call_last_first = Inr ([3, 1, 2], Some [''c'', ''a'', ''b''])"
proof -
  have s: "sort_by call_short_order = SortSeq [0, 1]"
    and l: "labels call_short_order = Some [''a'', ''b'', ''c'']"
    and d: "data call_short_order = [1, 2, 3]"
    by (simp_all add: call_short_order_def defaults_def)
  have c: "check_parameter (Param_sort_by (SortSeq [0, 1]))"
    by (simp add: check_parameter_def)
  have n: "[0, 1 :: int] \<noteq> []" by simp
  have rd: "\<forall>j\<in>set [0, 1]. - int (length (data call_short_order)) \<le> j
      \<and> j < int (length (data call_short_order))"
    using d by simp
  have rl: "\<forall>j\<in>set [0, 1]. - int (length [''a'', ''b'', ''c'']) \<le> j
      \<and> j < int (length [''a'', ''b'', ''c''])"
    by simp
  have 1: "reorder check_parameter call_short_order = Inr ([1, 2], Some [''a'', ''b''])"
    using bars_explicit_order
      [where chk = check_parameter and a = call_short_order, OF s c n l rd rl] d
    by simp
  have s': "sort_by call_last_first = SortSeq [- 1, 0, 1]"
    and l': "labels call_last_first = Some [''a'', ''b'', ''c'']"
    and d': "data call_last_first = [1, 2, 3]"
    by (simp_all add: call_last_first_def defaults_def)
  have c': "check_parameter (Param_sort_by (SortSeq [- 1, 0, 1]))"
    by (simp add: check_parameter_def)
  have n': "[- 1, 0, 1 :: int] \<noteq> []" by simp
  have rd': "\<forall>j\<in>set [- 1, 0, 1]. - int (length (data call_last_first)) \<le> j
      \<and> j < int (length (data call_last_first))"
    using d' by simp
  have rl': "\<forall>j\<in>set [- 1, 0, 1]. - int (length [''a'', ''b'', ''c'']) \<le> j
      \<and> j < int (length [''a'', ''b'', ''c''])"
    by simp
  have 2: "reorder check_parameter call_last_first = Inr ([3, 1, 2], Some [''c'', ''a'', ''b''])"
    using bars_explicit_order
      [where chk = check_parameter and a = call_last_first, OF s' c' n' l' rd' rl'] d'
    by simp
  show ?thesis using s d 1 s' 2 by simp
qed

text \<open>
  C5 as stated fails: an index sequence of length 2 on three data points raises
  nothing, and the call completes.
\<close>

theorem bars_explicit_order_counterexample:
  "sort_by call_short_order = SortSeq [0, 1] \<and> length (data call_short_order) = 3
   \<and> raised (bars check_parameter format_whole call_short_order) = None"
  by code_simp

text \<open>
  The validation is not passed the data, so no \<open>util.check_parameter\<close> can tell the
  two lengths apart: the order \<open>[0, 1]\<close> on three data points behaves as it does on
  the first two of them alone, under every checker and every formatting.
\<close>

lemma prepare_short_order:
  "prepare chk fm call_short_order =
     (if chk (Param_sort_by (SortSeq [0, 1])) \<and> chk (Param_labels (Some [''a'', ''b'']))
      then Inr \<lparr> p_data = [1, 2], p_labels = [''a'', ''b''],
                 p_bottom_labels =
                   Some ([''a'' @ [CHR 0x0A] @ ''N = '' @ fm 1,
                          ''b'' @ [CHR 0x0A] @ ''N = '' @ fm 2], 0),
                 p_max_val = 2, p_offsets = [0, 1], p_ylim = None \<rparr>
      else Inl ConfigurationError)"
  by (simp add: prepare_def reorder_def call_short_order_def defaults_def np_index_def
      bottom_labels_def np_len_def label_rotation_def scale_data_def np_max_def
      percent_data_def percent_ylim_def)

lemma prepare_full_order:
  "prepare chk fm call_full_order =
     (if chk (Param_sort_by (SortSeq [0, 1])) \<and> chk (Param_labels (Some [''a'', ''b'']))
      then Inr \<lparr> p_data = [1, 2], p_labels = [''a'', ''b''],
                 p_bottom_labels =
                   Some ([''a'' @ [CHR 0x0A] @ ''N = '' @ fm 1,
                          ''b'' @ [CHR 0x0A] @ ''N = '' @ fm 2], 0),
                 p_max_val = 2, p_offsets = [0, 1], p_ylim = None \<rparr>
      else Inl ConfigurationError)"
  by (simp add: prepare_def reorder_def call_full_order_def defaults_def np_index_def
      bottom_labels_def np_len_def label_rotation_def scale_data_def np_max_def
      percent_data_def percent_ylim_def)

lemma order_length_unchecked:
  "bars chk fm call_short_order = bars chk fm call_full_order"
  by (simp add: bars_def prepare_short_order prepare_full_order)
     (simp add: render_def draw_bars_def max_line_def bar_labels_def limits_def y_limits_def
      x_limits_def tick_labels_def finish_def call_short_order_def call_full_order_def
      defaults_def np_index_def np_max_def)

subsection \<open>Errors and drawing\<close>

lemma np_index_error: "np_index xs j = Inl e \<Longrightarrow> e = IndexError"
  by (auto simp: np_index_def Let_def split: if_splits)





lemma prepare_rejected:
  "\<not> chk (Param_sort_by (sort_by a)) \<Longrightarrow> prepare chk fm a = Inl ConfigurationError"
  "reorder chk a = Inr (d, l) \<Longrightarrow> \<not> chk (Param_labels l) \<Longrightarrow>
     prepare chk fm a = Inl ConfigurationError"
  by (simp_all add: prepare_def reorder_def)



lemma draw_bars_events:
  "take 2 (events (draw_bars a p)) = [Figure (figsize a), Add_subplot]"
  by (simp add: draw_bars_def events_andthen events_emit raised_emit)












subsection \<open>Texts on the bars\<close>

lemma texts_append: "texts (xs @ ys) = texts xs @ texts ys"
  by (simp add: texts_def)

lemma texts_Nil: "texts [] = []"
  by (simp add: texts_def)

lemma texts_Cons:
  "texts (e # es) = (case e of Text x y s \<Rightarrow> [(x, y, s)] | _ \<Rightarrow> []) @ texts es"
  by (simp add: texts_def)

lemma bar_loop_texts: "texts (events (bar_loop d w js)) = []"
  by (induction js)
     (simp_all add: texts_Nil texts_Cons events_andthen events_emit events_raise raised_emit
      split: sum.splits)

lemma text_loop_unscaled:
  "scale_by a = None \<Longrightarrow> events (text_loop fm a d js) = []
     \<and> (js \<noteq> [] \<longrightarrow> raised (text_loop fm a d js) = Some IndexError
                      \<or> raised (text_loop fm a d js) = Some UnboundLocalError)"
  by (cases js)
     (auto simp: y_offset_def events_emit events_raise raised_raise split: sum.splits
      dest: np_index_error)

lemma bars_texts_unscaled:
  assumes "scale_by a = None"
  shows "texts (events (bars chk fm a)) = []"
proof (cases "prepare chk fm a")
  case (Inl e)
  then show ?thesis by (simp add: bars_def events_raise texts_Nil)
next
  case (Inr p)
  have 1: "texts (events (draw_bars a p)) = []"
    by (simp add: draw_bars_def events_andthen events_emit raised_emit bar_loop_texts
        texts_Nil texts_Cons)
  have 2: "texts (events (max_line a p)) = []"
    by (simp add: max_line_def events_emit events_raise texts_Nil texts_Cons split: sum.splits)
  have 3: "texts (events (bar_labels chk fm a p)) = []"
    using text_loop_unscaled [OF assms]
    by (simp add: bar_labels_def events_emit events_raise texts_Nil)
  have 4: "texts (events (limits a p)) = []"
    by (simp add: limits_def events_emit events_raise texts_Nil texts_Cons
        split: sum.splits prod.splits)
  have 5: "texts (events (tick_labels p)) = []"
    by (simp add: tick_labels_def events_emit texts_Nil texts_Cons
        split: option.splits prod.splits)
  have 6: "texts (events (finish a p)) = []"
    by (simp add: finish_def events_emit texts_Nil texts_Cons texts_append)
  show ?thesis
    using Inr 1 2 3 4 5 6
    by (simp add: bars_def render_def events_andthen texts_append texts_Nil)
qed

text \<open>
  C9 does not hold of the code. With \<open>show_bar_labels\<close> and no \<open>scale_by\<close> the call
  ends in \<open>UnboundLocalError\<close> at the first bar, after the bars are drawn and before
  any text is: \<open>y_offset\<close> is read at line 175 and bound at line 172 only. With a scale
  factor each bar has its text at its offset and at its value plus 0.05.
\<close>

theorem bars_bar_labels_unscaled:
  "bars check_parameter format_whole call_bar_labels =
     Outcome [Figure (12, 8), Add_subplot, Bar 0 50 (3 / 4), Bar 1 50 (3 / 4)]
       (Some UnboundLocalError)
   \<and> texts (events (bars check_parameter format_whole call_bar_labels_scaled)) =
       [(0, 21 / 20, ''1''), (1, 41 / 20, ''2'')]"
  by code_simp

subsection \<open>Omitted labels\<close>

lemma reorder_no_labels:
  "labels a = None \<Longrightarrow> reorder chk a = Inr (d, l) \<Longrightarrow> l = None \<and> sort_by a = SortNone"
  by (auto simp: reorder_def Let_def split: if_splits sort_spec.splits sum.splits)

lemma prepare_no_labels: "labels a = None \<Longrightarrow> \<exists>e. prepare chk fm a = Inl e"
proof (cases "reorder chk a")
  case (Inl e)
  then show ?thesis by (simp add: prepare_def)
next
  case (Inr dl)
  assume none: "labels a = None"
  obtain d l where dl: "dl = (d, l)" by (cases dl)
  with Inr none have l: "l = None" using reorder_no_labels by blast
  show ?thesis using Inr dl l
    by (simp add: prepare_def np_len_def bottom_labels_def split: sum.splits prod.splits)
qed

text \<open>
  C10. A call that omits \<open>labels\<close> never completes: it raises before anything is drawn.
  The array made of \<open>None\<close> has no length, so with the validation passed and no
  reordering the exception is the \<open>TypeError\<close> of \<open>len(labels)\<close>, raised by the
  bottom-label branch when bottom labels are shown (the default) and by the computation
  of the offsets when they are not.
\<close>

theorem bars_labels_omitted:
  assumes "labels a = None"
  shows "events (bars chk fm a) = [] \<and> raised (bars chk fm a) \<noteq> None
    \<and> (chk (Param_sort_by SortNone) \<and> chk (Param_labels None) \<and> sort_by a = SortNone
         \<and> show_bottom_labels a \<longrightarrow> raised (bars chk fm a) = Some TypeError)
    \<and> (chk (Param_sort_by SortNone) \<and> chk (Param_labels None) \<and> sort_by a = SortNone
         \<and> \<not> show_bottom_labels a \<and> (\<exists>r. scale_data a (data a) = Inr r)
         \<longrightarrow> raised (bars chk fm a) = Some TypeError)"
proof -
  from assms obtain e where e: "prepare chk fm a = Inl e"
    using prepare_no_labels by blast
  have b: "bars chk fm a = Outcome [] (Some e)"
    using e by (rule bars_prepare_failed)
  have t1: "e = TypeError"
    if "chk (Param_sort_by SortNone)" "chk (Param_labels None)" "sort_by a = SortNone"
       "show_bottom_labels a"
    using that e assms
    by (simp add: prepare_def reorder_def bottom_labels_def np_len_def)
  have t2: "e = TypeError"
    if "chk (Param_sort_by SortNone)" "chk (Param_labels None)" "sort_by a = SortNone"
       "\<not> show_bottom_labels a" "scale_data a (data a) = Inr r" for r
    using that e assms
    by (simp add: prepare_def reorder_def bottom_labels_def np_len_def split: prod.splits)
  show ?thesis using b t1 t2 by auto
qed

theorem bars_labels_omitted_witness:
  "labels call_no_labels = None
   \<and> bars check_parameter format_whole call_no_labels = Outcome [] (Some TypeError)
   \<and> labels call_no_labels_hidden = None
   \<and> bars check_parameter format_whole call_no_labels_hidden = Outcome [] (Some TypeError)"
proof -
  have h: "labels call_no_labels = None"
    by (simp add: call_no_labels_def defaults_def)
  have c: "check_parameter (Param_sort_by SortNone) \<and> check_parameter (Param_labels None)
      \<and> sort_by call_no_labels = SortNone \<and> show_bottom_labels call_no_labels"
    by (simp add: call_no_labels_def defaults_def check_parameter_def)
  from bars_labels_omitted [OF h, of check_parameter format_whole] c
  have 1: "events (bars check_parameter format_whole call_no_labels) = []
      \<and> raised (bars check_parameter format_whole call_no_labels) = Some TypeError"
    by blast
  have h': "labels call_no_labels_hidden = None"
    by (simp add: call_no_labels_hidden_def defaults_def)
  have c': "check_parameter (Param_sort_by SortNone) \<and> check_parameter (Param_labels None)
      \<and> sort_by call_no_labels_hidden = SortNone \<and> \<not> show_bottom_labels call_no_labels_hidden
      \<and> (\<exists>r. scale_data call_no_labels_hidden (data call_no_labels_hidden) = Inr r)"
    by (simp add: call_no_labels_hidden_def defaults_def check_parameter_def scale_data_def
        np_max_def)
  from bars_labels_omitted [OF h', of check_parameter format_whole] c'
  have 2: "events (bars check_parameter format_whole call_no_labels_hidden) = []
      \<and> raised (bars check_parameter format_whole call_no_labels_hidden) = Some TypeError"
    by blast
  show ?thesis
    using h h' 1 2
    by (cases "bars check_parameter format_whole call_no_labels";
        cases "bars check_parameter format_whole call_no_labels_hidden") simp
qed

end
